theory Spec2Isabelle
  imports Complex_Main
begin

section \<open>Python values and exceptions\<close>

text \<open>
  The values a decoded JSON record can hold, as Python sees them after \<open>json.loads\<close>.
  A Python \<open>str\<close> is a sequence of code points; the model keeps the code points below 256,
  one per \<open>char\<close> (so the degree sign U+00B0 is one character, as in Python).
  A finite Python \<open>float\<close> is an IEEE 754 binary64 number, kept as the pair \<open>(m, e)\<close> of an
  integer significand and a binary exponent, denoting \<open>m * 2 ^ e\<close>.
\<close>

type_synonym double = "int \<times> int"

datatype pyval =
    PNone
  | PBool bool
  | PInt int
  | PFloat double
  | PNaN
  | PInf bool
  | PStr string
  | PList "pyval list"
  | PDict "(string \<times> pyval) list"

datatype py_error = KeyError | TypeError | ValueError | OverflowError | JSONDecodeError
  | UnicodeDecodeError

fun bind_err :: "'e + 'a \<Rightarrow> ('a \<Rightarrow> 'e + 'b) \<Rightarrow> 'e + 'b" where
  "bind_err (Inl e) f = Inl e"
| "bind_err (Inr x) f = f x"

text \<open>\<open>d[k]\<close> on a dict: \<open>KeyError\<close> when the key is absent.\<close>

definition getitem :: "(string \<rightharpoonup> 'v) \<Rightarrow> string \<Rightarrow> py_error + 'v" where
  "getitem d k = (case d k of None \<Rightarrow> Inl KeyError | Some v \<Rightarrow> Inr v)"

subsection \<open>The builtin \<open>int\<close>\<close>

text \<open>Whitespace as \<open>str.strip\<close> and \<open>int\<close> see it, for code points below 256.\<close>

definition is_space :: "char \<Rightarrow> bool" where
  "is_space c = ((of_char c :: nat) \<in> {9, 10, 11, 12, 13, 28, 29, 30, 31, 32, 133, 160})"

definition strip :: "string \<Rightarrow> string" where
  "strip s = rev (dropWhile is_space (rev (dropWhile is_space s)))"

definition is_digit :: "char \<Rightarrow> bool" where
  "is_digit c = (48 \<le> (of_char c :: nat) \<and> (of_char c :: nat) \<le> 57)"

definition digit_val :: "char \<Rightarrow> int" where
  "digit_val c = int (of_char c) - 48"

text \<open>
  Decimal digits, where a single underscore may stand between two digits.
  \<open>str_digits cs acc\<close> is called where a digit is required.
\<close>

fun str_digits :: "string \<Rightarrow> int \<Rightarrow> int option" where
  "str_digits [] acc = None"
| "str_digits (c # cs) acc =
     (if is_digit c then
        (case cs of
           [] \<Rightarrow> Some (10 * acc + digit_val c)
         | d # ds \<Rightarrow>
             if d = CHR ''_'' then str_digits ds (10 * acc + digit_val c)
             else str_digits cs (10 * acc + digit_val c))
      else None)"

definition int_of_str :: "string \<Rightarrow> int option" where
  "int_of_str s =
     (case strip s of
        [] \<Rightarrow> None
      | c # cs \<Rightarrow>
          if c = CHR ''-'' then map_option uminus (str_digits cs 0)
          else if c = CHR ''+'' then str_digits cs 0
          else str_digits (c # cs) 0)"

text \<open>\<open>int(x)\<close> of a finite float truncates towards zero.\<close>

definition trunc_double :: "double \<Rightarrow> int" where
  "trunc_double x =
     (case x of (m, e) \<Rightarrow>
        if 0 \<le> e then m * 2 ^ nat e
        else if 0 \<le> m then m div 2 ^ nat (- e)
        else - ((- m) div 2 ^ nat (- e)))"

fun py_int :: "pyval \<Rightarrow> py_error + int" where
  "py_int PNone = Inl TypeError"
| "py_int (PBool b) = Inr (if b then 1 else 0)"
| "py_int (PInt i) = Inr i"
| "py_int (PFloat x) = Inr (trunc_double x)"
| "py_int PNaN = Inl ValueError"
| "py_int (PInf s) = Inl OverflowError"
| "py_int (PStr s) = (case int_of_str s of None \<Rightarrow> Inl ValueError | Some i \<Rightarrow> Inr i)"
| "py_int (PList xs) = Inl TypeError"
| "py_int (PDict kvs) = Inl TypeError"

section \<open>Binary64 arithmetic\<close>

text \<open>
  The three float operations of \<open>convert_values\<close>: true division of two ints, a float
  times an int, and \<open>round(x, 2)\<close>. Each returns the binary64 number nearest to the exact
  result, ties to even, as IEEE 754 and CPython do. Exponent overflow and subnormal
  numbers are not modelled: the operands here lie between \<open>1/1023\<close> and \<open>2000\<close>, or are 0.
\<close>

function ilog2 :: "int \<Rightarrow> int" where
  "ilog2 n = (if n \<le> 1 then 0 else 1 + ilog2 (n div 2))"
  by pat_completeness auto
termination
  by (relation "measure (\<lambda>n. nat n)") auto

declare ilog2.simps [simp del]

text \<open>The integer nearest to \<open>p / q\<close> for \<open>q > 0\<close>, ties to the even one.\<close>

definition rne_pick :: "int \<Rightarrow> int \<Rightarrow> int \<Rightarrow> int" where
  "rne_pick d r q =
     (if 2 * r < q then d else if q < 2 * r then d + 1
      else if even d then d else d + 1)"

definition rne_div :: "int \<Rightarrow> int \<Rightarrow> int" where
  "rne_div p q = rne_pick (p div q) (p mod q) q"

definition shl :: "int \<Rightarrow> int \<Rightarrow> int" where
  "shl n s = (if 0 \<le> s then n * 2 ^ nat s else n)"

text \<open>
  The binary64 number nearest to \<open>p / q\<close> for \<open>p, q > 0\<close>. With \<open>e\<close> the exponent of
  the leading bit of \<open>p / q\<close>, the significand is \<open>p / q * 2 ^ (52 - e)\<close> rounded to an
  integer; when it rounds up to \<open>2 ^ 53\<close> the exponent grows by one.
\<close>

definition fl_norm :: "int \<Rightarrow> int \<Rightarrow> double" where
  "fl_norm m e = (if m = 2 ^ 53 then (2 ^ 52, e - 51) else (m, e - 52))"

definition fl_sig :: "int \<Rightarrow> int \<Rightarrow> int \<Rightarrow> double" where
  "fl_sig p q e = fl_norm (rne_div (shl p (52 - e)) (shl q (e - 52))) e"

definition fl_exp :: "int \<Rightarrow> int \<Rightarrow> int \<Rightarrow> double" where
  "fl_exp p q b = fl_sig p q (if shl q b \<le> shl p (- b) then b else b - 1)"

definition fl_pos :: "int \<Rightarrow> int \<Rightarrow> double" where
  "fl_pos p q = fl_exp p q (ilog2 p - ilog2 q)"

definition fl_q :: "int \<Rightarrow> int \<Rightarrow> double" where
  "fl_q p q =
     (if p = 0 then (0, 0)
      else if 0 < p then fl_pos p q
      else (case fl_pos (- p) q of (m, e) \<Rightarrow> (- m, e)))"

text \<open>\<open>a / b\<close> on two ints (\<open>b > 0\<close>): correctly rounded.\<close>

definition fdiv_int :: "int \<Rightarrow> int \<Rightarrow> double" where
  "fdiv_int a b = fl_q a b"

text \<open>\<open>x * k\<close> for a float \<open>x\<close> and an int \<open>k\<close> that is exact as a float.\<close>

definition fmul_int :: "double \<Rightarrow> int \<Rightarrow> double" where
  "fmul_int x k = (case x of (m, e) \<Rightarrow> fl_q (shl (m * k) e) (shl 1 (- e)))"

text \<open>
  \<open>round(x, 2)\<close>: the exact value of \<open>x\<close> is rounded to an integer number of hundredths,
  ties to even, and the result is the float nearest to that decimal.
\<close>

definition round_hundredths :: "double \<Rightarrow> int" where
  "round_hundredths x = (case x of (m, e) \<Rightarrow> rne_div (shl (m * 100) e) (shl 1 (- e)))"

text \<open>The float written as a decimal literal with two places, \<open>h\<close> hundredths.\<close>

definition dec2 :: "int \<Rightarrow> double" where
  "dec2 h = fl_q h 100"

definition py_round2 :: "double \<Rightarrow> double" where
  "py_round2 x = dec2 (round_hundredths x)"

text \<open>The exact value of a float.\<close>

definition dval :: "double \<Rightarrow> real" where
  "dval x = (case x of (m, e) \<Rightarrow> of_int m * 2 powi e)"

section \<open>Sensor calibration (backend.py)\<close>

definition calibrate :: "pyval \<Rightarrow> int option" where
  "calibrate raw =
     (case py_int raw of
        Inl err \<Rightarrow> None
      | Inr r0 \<Rightarrow>
          (let r1 = (if r0 < 0 then 0 else r0);
               r2 = (if r1 > 1023 then 1023 else r1)
           in Some r2))"

record reading =
  Temperature :: double
  Humidity :: double
  CO2 :: double
  Oxygen :: double
  UV_Index :: double
  Solar_Radiation :: double
  Air_Quality :: double
  GSR :: double
  Atmospheric_Pressure :: double

text \<open>
  \<open>round((c / 1023) * k, 2)\<close> for a calibrated value \<open>c\<close>; on \<open>None\<close> the division
  raises \<open>TypeError\<close>.
\<close>

fun scaled :: "int option \<Rightarrow> int \<Rightarrow> py_error + double" where
  "scaled None k = Inl TypeError"
| "scaled (Some c) k = Inr (py_round2 (fmul_int (fdiv_int c 1023) k))"

definition convert_values :: "(string \<rightharpoonup> pyval) \<Rightarrow> py_error + reading" where
  "convert_values data =
     bind_err (getitem data ''oxygen'') (\<lambda>v1. let oxy = calibrate v1 in
     bind_err (getitem data ''uv'') (\<lambda>v2. let uv = calibrate v2 in
     bind_err (getitem data ''pressure'') (\<lambda>v3. let pres = calibrate v3 in
     bind_err (getitem data ''solar'') (\<lambda>v4. let solar = calibrate v4 in
     bind_err (getitem data ''temp_humidity'') (\<lambda>v5. let th = calibrate v5 in
     bind_err (getitem data ''co2'') (\<lambda>v6. let co2 = calibrate v6 in
     bind_err (getitem data ''air_quality'') (\<lambda>v7. let aq = calibrate v7 in
     bind_err (scaled th 50) (\<lambda>temperature.
     bind_err (scaled th 100) (\<lambda>humidity.
     bind_err (scaled co2 2000) (\<lambda>co2_ppm.
     bind_err (scaled oxy 21) (\<lambda>oxygen.
     bind_err (scaled uv 11) (\<lambda>uv_index.
     bind_err (scaled solar 1200) (\<lambda>solar_radiation.
     bind_err (scaled aq 500) (\<lambda>air_quality.
     bind_err (scaled solar 100) (\<lambda>gsr.
     bind_err (scaled pres 1100) (\<lambda>pressure.
       Inr \<lparr>Temperature = temperature, Humidity = humidity, CO2 = co2_ppm,
            Oxygen = oxygen, UV_Index = uv_index, Solar_Radiation = solar_radiation,
            Air_Quality = air_quality, GSR = gsr,
            Atmospheric_Pressure = pressure\<rparr>))))))))))))))))"

text \<open>The snapshot of the end-to-end scenario.\<close>

definition scenario_snapshot :: "string \<rightharpoonup> pyval" where
  "scenario_snapshot =
     [''oxygen'' \<mapsto> PInt 512, ''uv'' \<mapsto> PInt 93, ''pressure'' \<mapsto> PInt 465,
      ''solar'' \<mapsto> PInt 850, ''temp_humidity'' \<mapsto> PInt 700, ''co2'' \<mapsto> PInt 300,
      ''air_quality'' \<mapsto> PInt 100]"

text \<open>\<open>x > k\<close> for a float \<open>x\<close> and an int \<open>k\<close>, decided on the exact values.\<close>

definition double_gt_int :: "double \<Rightarrow> int \<Rightarrow> bool" where
  "double_gt_int x k = (case x of (m, e) \<Rightarrow> shl k (- e) < shl m e)"

text \<open>Whether the float \<open>x\<close> is exactly \<open>k\<close> times the float \<open>y\<close>, for an int \<open>k\<close>.\<close>

definition double_eq_times :: "double \<Rightarrow> int \<Rightarrow> double \<Rightarrow> bool" where
  "double_eq_times x k y =
     (case x of (m, e) \<Rightarrow> case y of (n, f) \<Rightarrow>
        shl m e * shl 1 (- f) = k * shl n f * shl 1 (- e))"

section \<open>The state of the backend (backend.py)\<close>

type_synonym timestamp = rat

datatype payload = Reading_JSON reading | Heartbeat_JSON timestamp

datatype log_level = INFO | WARNING | ERROR

datatype log_msg =
    MQTT_connected
  | MQTT_failed int
  | MQTT_disconnected
  | MQTT_connection_error
  | MQTT_not_connected
  | Bad_JSON string
  | Serial_read_error py_error
  | Calibrated reading

datatype cell = CText string | CTime timestamp | CNum double | CEmpty

type_synonym csv_row = "cell list"

text \<open>
  \<open>connected\<close> and \<open>sent\<close> are the \<open>MQTTClient\<close>: its flag, and what it handed to the
  transport with \<open>client.publish\<close>. \<open>data_queue\<close> is the queue, oldest entry first.
  \<open>csv_file\<close> is the file \<open>CSV_FILE\<close>: \<open>None\<close> while it does not exist, else its rows.
\<close>

record backend =
  connected :: bool
  sent :: "(string \<times> payload) list"
  data_queue :: "(string \<rightharpoonup> pyval) list"
  csv_file :: "csv_row list option"
  logs :: "(log_level \<times> log_msg) list"

definition logging :: "log_level \<Rightarrow> log_msg \<Rightarrow> backend \<Rightarrow> backend" where
  "logging lvl msg st = st\<lparr>logs := logs st @ [(lvl, msg)]\<rparr>"

subsection \<open>MQTT client\<close>

definition TOPIC :: string where
  "TOPIC = ''weather/workstation''"

definition STATUS_TOPIC :: "string \<Rightarrow> string" where
  "STATUS_TOPIC hostname = ''weather/status/'' @ hostname"

definition MQTTClient_init :: "backend \<Rightarrow> backend" where
  "MQTTClient_init st = st\<lparr>connected := False\<rparr>"

definition on_connect :: "int \<Rightarrow> backend \<Rightarrow> backend" where
  "on_connect rc st =
     (let st1 = st\<lparr>connected := (rc = 0)\<rparr>
      in logging INFO (if connected st1 then MQTT_connected else MQTT_failed rc) st1)"

definition on_disconnect :: "int \<Rightarrow> backend \<Rightarrow> backend" where
  "on_disconnect rc st = logging WARNING MQTT_disconnected (st\<lparr>connected := False\<rparr>)"

text \<open>\<open>start\<close>: \<open>connect_raises\<close> says whether \<open>client.connect\<close> raised.\<close>

definition start :: "bool \<Rightarrow> backend \<Rightarrow> backend" where
  "start connect_raises st =
     (if connect_raises then logging ERROR MQTT_connection_error st else st)"

definition publish :: "string \<Rightarrow> payload \<Rightarrow> backend \<Rightarrow> backend" where
  "publish topic pl st =
     (if connected st then st\<lparr>sent := sent st @ [(topic, pl)]\<rparr>
      else logging WARNING MQTT_not_connected st)"

text \<open>Everything that touches the client.\<close>

datatype mqtt_event =
    Init
  | Start bool
  | On_connect int
  | On_disconnect int
  | Publish string payload

fun mqtt_step :: "mqtt_event \<Rightarrow> backend \<Rightarrow> backend" where
  "mqtt_step Init st = MQTTClient_init st"
| "mqtt_step (Start raises) st = start raises st"
| "mqtt_step (On_connect rc) st = on_connect rc st"
| "mqtt_step (On_disconnect rc) st = on_disconnect rc st"
| "mqtt_step (Publish topic pl) st = publish topic pl st"

subsection \<open>Serial reader\<close>

text \<open>
  One pass of the loop of \<open>serial_reader\<close>. \<open>input\<close> is what
  \<open>ser.readline().decode("utf-8")\<close> gives: the text, or the exception it raised.
  \<open>loads\<close> stands for \<open>json.loads\<close>. Every exception is caught and logged.
\<close>

definition startswith_brace :: "string \<Rightarrow> bool" where
  "startswith_brace s = (case s of [] \<Rightarrow> False | c # cs \<Rightarrow> c = CHR ''{'')"

definition endswith_brace :: "string \<Rightarrow> bool" where
  "endswith_brace s = (case rev s of [] \<Rightarrow> False | c # cs \<Rightarrow> c = CHR ''}'')"

definition serial_reader_step ::
  "(string \<Rightarrow> py_error + (string \<rightharpoonup> pyval)) \<Rightarrow> py_error + string \<Rightarrow> backend \<Rightarrow> backend"
where
  "serial_reader_step loads input st =
     (case input of
        Inl err \<Rightarrow> logging ERROR (Serial_read_error err) st
      | Inr text \<Rightarrow>
          (let line = strip text in
           if line = [] then st
           else if \<not> startswith_brace line \<or> \<not> endswith_brace line
           then logging WARNING (Bad_JSON line) st
           else (case loads line of
                   Inl err \<Rightarrow> logging ERROR (Serial_read_error err) st
                 | Inr data \<Rightarrow> st\<lparr>data_queue := data_queue st @ [data]\<rparr>)))"

subsection \<open>A fragment of \<open>json.loads\<close>\<close>

text \<open>
  \<open>json.loads\<close> on the flat objects the Arduino sends: string keys without escapes, and
  values that are integers, strings without escapes, \<open>null\<close>, \<open>true\<close> or \<open>false\<close>. On
  these it returns what \<open>json.loads\<close> returns (for a repeated key, the last value);
  everything else it rejects, so it only stands for \<open>json.loads\<close> on this fragment.
\<close>

datatype token = T_lbrace | T_rbrace | T_colon | T_comma | T_str string | T_int int
  | T_null | T_true | T_false

datatype lex_mode = Idle | In_str string | In_num string | In_word string

definition is_json_space :: "char \<Rightarrow> bool" where
  "is_json_space c = ((of_char c :: nat) \<in> {9, 10, 13, 32})"

definition is_lower :: "char \<Rightarrow> bool" where
  "is_lower c = (97 \<le> (of_char c :: nat) \<and> (of_char c :: nat) \<le> 122)"

definition num_token :: "string \<Rightarrow> token option" where
  "num_token s =
     (case s of
        [] \<Rightarrow> None
      | c # cs \<Rightarrow>
          let ds = (if c = CHR ''-'' then cs else s) in
          if ds = [] \<or> \<not> list_all is_digit ds \<or> (hd ds = CHR ''0'' \<and> length ds > 1)
          then None
          else Some (T_int ((if c = CHR ''-'' then - 1 else 1)
                            * foldl (\<lambda>a d. 10 * a + digit_val d) 0 ds)))"

definition word_token :: "string \<Rightarrow> token option" where
  "word_token s =
     (if s = ''null'' then Some T_null
      else if s = ''true'' then Some T_true
      else if s = ''false'' then Some T_false
      else None)"

definition punct_token :: "char \<Rightarrow> token option" where
  "punct_token c =
     (if c = CHR ''{'' then Some T_lbrace
      else if c = CHR ''}'' then Some T_rbrace
      else if c = CHR '':'' then Some T_colon
      else if c = CHR '','' then Some T_comma
      else None)"

fun close_mode :: "lex_mode \<Rightarrow> token list option" where
  "close_mode Idle = Some []"
| "close_mode (In_str s) = None"
| "close_mode (In_num s) = map_option (\<lambda>t. [t]) (num_token s)"
| "close_mode (In_word s) = map_option (\<lambda>t. [t]) (word_token s)"

fun lexer :: "lex_mode \<Rightarrow> string \<Rightarrow> token list option" where
  "lexer mode [] = close_mode mode"
| "lexer (In_str s) (c # cs) =
     (if c = CHR 0x22 then map_option (\<lambda>ts. T_str s # ts) (lexer Idle cs)
      else if c = CHR 0x5C \<or> (of_char c :: nat) < 32 then None
      else lexer (In_str (s @ [c])) cs)"
| "lexer mode (c # cs) =
     (if (case mode of In_num s \<Rightarrow> is_digit c | In_word s \<Rightarrow> is_lower c | _ \<Rightarrow> False)
      then lexer (case mode of In_num s \<Rightarrow> In_num (s @ [c]) | In_word s \<Rightarrow> In_word (s @ [c])
                  | _ \<Rightarrow> mode) cs
      else
        (case close_mode mode of
           None \<Rightarrow> None
         | Some done \<Rightarrow>
             map_option (\<lambda>ts. done @ ts)
               (if is_json_space c then lexer Idle cs
                else if c = CHR 0x22 then lexer (In_str []) cs
                else if c = CHR ''-'' \<or> is_digit c then lexer (In_num [c]) cs
                else if is_lower c then lexer (In_word [c]) cs
                else (case punct_token c of
                        None \<Rightarrow> None
                      | Some t \<Rightarrow> map_option (\<lambda>ts. t # ts) (lexer Idle cs)))))"

fun token_value :: "token \<Rightarrow> pyval option" where
  "token_value (T_str s) = Some (PStr s)"
| "token_value (T_int i) = Some (PInt i)"
| "token_value T_null = Some PNone"
| "token_value T_true = Some (PBool True)"
| "token_value T_false = Some (PBool False)"
| "token_value t = None"

text \<open>The members after the opening brace, up to the closing one, which ends the text.\<close>

fun members :: "token list \<Rightarrow> (string \<rightharpoonup> pyval) \<Rightarrow> (string \<rightharpoonup> pyval) option" where
  "members (T_str k # T_colon # v # T_rbrace # []) d =
     map_option (\<lambda>x. d(k \<mapsto> x)) (token_value v)"
| "members (T_str k # T_colon # v # T_comma # rest) d =
     (case token_value v of None \<Rightarrow> None | Some x \<Rightarrow> members rest (d(k \<mapsto> x)))"
| "members ts d = None"

definition json_loads_flat :: "string \<Rightarrow> py_error + (string \<rightharpoonup> pyval)" where
  "json_loads_flat s =
     (case lexer Idle s of
        None \<Rightarrow> Inl JSONDecodeError
      | Some ts \<Rightarrow>
          (case ts of
             [T_lbrace, T_rbrace] \<Rightarrow> Inr Map.empty
           | T_lbrace # rest \<Rightarrow>
               (case members rest Map.empty of None \<Rightarrow> Inl JSONDecodeError | Some d \<Rightarrow> Inr d)
           | _ \<Rightarrow> Inl JSONDecodeError))"

subsection \<open>CSV file\<close>

definition csv_header :: csv_row where
  "csv_header = map CText
     [''timestamp'', ''Temperature'', ''Humidity'', ''CO2'', ''Oxygen'', ''UV Index'',
      ''Solar Radiation'', ''Air Quality'', ''GSR'', ''Atmospheric Pressure'']"

text \<open>\<open>ensure_csv\<close>: the file is written, with the header, only when it does not exist.\<close>

definition ensure_csv :: "backend \<Rightarrow> backend" where
  "ensure_csv st =
     (case csv_file st of
        None \<Rightarrow> st\<lparr>csv_file := Some [csv_header]\<rparr>
      | Some rows \<Rightarrow> st)"

text \<open>Opening a file in mode \<open>"a"\<close> creates it when it does not exist.\<close>

definition append_row :: "csv_row \<Rightarrow> csv_row list option \<Rightarrow> csv_row list option" where
  "append_row row f = (case f of None \<Rightarrow> Some [row] | Some rows \<Rightarrow> Some (rows @ [row]))"

definition reading_row :: "timestamp \<Rightarrow> reading \<Rightarrow> csv_row" where
  "reading_row utcnow r =
     [CTime utcnow, CNum (Temperature r), CNum (Humidity r), CNum (CO2 r), CNum (Oxygen r),
      CNum (UV_Index r), CNum (Solar_Radiation r), CNum (Air_Quality r), CNum (GSR r),
      CNum (Atmospheric_Pressure r)]"

definition write_csv :: "timestamp \<Rightarrow> reading \<Rightarrow> backend \<Rightarrow> backend" where
  "write_csv utcnow r st = st\<lparr>csv_file := append_row (reading_row utcnow r) (csv_file st)\<rparr>"

subsection \<open>Data processor\<close>

text \<open>
  One pass of the loop of \<open>data_processor\<close>. On an empty queue it sleeps and goes on.
  Otherwise it takes one entry with \<open>data_queue.get()\<close>, the oldest, and handles it.
  An exception of \<open>convert_values\<close> is not caught: it ends the thread (\<open>Inl\<close>).
  \<open>utcnow\<close> and \<open>now\<close> are the clock readings of the pass.
\<close>

definition data_processor_step ::
  "string \<Rightarrow> timestamp \<Rightarrow> timestamp \<Rightarrow> backend \<Rightarrow> py_error + backend"
where
  "data_processor_step hostname utcnow now st =
     (case data_queue st of
        [] \<Rightarrow> Inr st
      | raw # rest \<Rightarrow>
          bind_err (convert_values raw) (\<lambda>calibrated.
            Inr (publish (STATUS_TOPIC hostname @ ''/hb'') (Heartbeat_JSON now)
                  (publish TOPIC (Reading_JSON calibrated)
                    (write_csv utcnow calibrated
                      (logging INFO (Calibrated calibrated)
                        (st\<lparr>data_queue := rest\<rparr>)))))))"

section \<open>The simulated pipeline (tempCodeRunnerFile.py)\<close>

definition THRESHOLDS :: "(string \<times> int) list" where
  "THRESHOLDS =
     [(''Temperature ('' @ [CHR 0xB0] @ ''C'', 30),
      (''CO2 (ppm)'', 1000),
      (''Air Quality (AQI)'', 200)]"

definition sensor_names :: "string list" where
  "sensor_names =
     [''Temperature ('' @ [CHR 0xB0] @ ''C)'',
      ''Humidity (%)'',
      ''CO2 (ppm)'',
      ''Oxygen (O2 %)'',
      ''UV Index'',
      ''Solar Radiation (W/m'' @ [CHR 0xB2] @ '')'',
      ''Air Quality (AQI)'',
      ''GSR'',
      ''Atmospheric Pressure (hPa)'']"

definition UNITS :: "(string \<times> string) list" where
  "UNITS =
     [(''Temperature ('' @ [CHR 0xB0] @ ''C)'', [CHR 0xB0] @ ''C''),
      (''Humidity (%)'', ''%''),
      (''CO2 (ppm)'', ''ppm''),
      (''Oxygen (O2 %)'', ''%''),
      (''UV Index'', ''index''),
      (''Solar Radiation (W/m'' @ [CHR 0xB2] @ '')'', ''W/m'' @ [CHR 0xB2]),
      (''Air Quality (AQI)'', ''AQI''),
      (''GSR'', ''''),
      (''Atmospheric Pressure (hPa)'', ''hPa'')]"

text \<open>A sensor value is a float, or \<open>None\<close> when the sensor failed.\<close>

definition check_threshold :: "string \<Rightarrow> double option \<Rightarrow> string" where
  "check_threshold sensor_name v =
     (case v of
        None \<Rightarrow> ''ERROR''
      | Some x \<Rightarrow>
          (case map_of THRESHOLDS sensor_name of
             Some limit \<Rightarrow> if double_gt_int x limit then ''ALERT'' else ''Normal''
           | None \<Rightarrow> ''Normal''))"

text \<open>
  A snapshot is a dict in insertion order. \<open>sim_queue\<close> is the queue, oldest entry first;
  \<open>sim_csv\<close> the file; \<open>sim_sent\<close> what was published; \<open>console\<close> the sensor lines
  printed, each as name, value, unit and status (the title line of a pass is left out).
\<close>

type_synonym snapshot = "(string \<times> double option) list"

record sim =
  sim_queue :: "(timestamp \<times> snapshot) list"
  sim_csv :: "csv_row list option"
  sim_sent :: "(string \<times> snapshot) list"
  console :: "(string \<times> double option \<times> string \<times> string) list"

definition value_cell :: "double option \<Rightarrow> cell" where
  "value_cell v = (case v of None \<Rightarrow> CEmpty | Some x \<Rightarrow> CNum x)"

text \<open>\<open>[latest_data[s.name] for s in sensors]\<close>: \<open>KeyError\<close> on the first absent name.\<close>

fun sensor_cells :: "string list \<Rightarrow> snapshot \<Rightarrow> py_error + cell list" where
  "sensor_cells [] snap = Inr []"
| "sensor_cells (n # ns) snap =
     bind_err (getitem (map_of snap) n) (\<lambda>v.
     bind_err (sensor_cells ns snap) (\<lambda>cells. Inr (value_cell v # cells)))"

definition console_line :: "string \<times> double option \<Rightarrow> string \<times> double option \<times> string \<times> string"
where
  "console_line nv =
     (case nv of (n, v) \<Rightarrow>
        (n, v, (case map_of UNITS n of None \<Rightarrow> [] | Some u \<Rightarrow> u), check_threshold n v))"

text \<open>
  One pass of the loop of the simulated \<open>data_processor\<close>: the whole queue is drained
  into \<open>batch\<close>, and only \<open>batch[-1]\<close> is printed, logged and published.
\<close>

definition sim_processor_step :: "sim \<Rightarrow> py_error + sim" where
  "sim_processor_step st =
     (let batch = sim_queue st; st1 = st\<lparr>sim_queue := []\<rparr> in
      if batch = [] then Inr st1
      else
        (case last batch of (ts, latest_data) \<Rightarrow>
           (let st2 = st1\<lparr>console := console st1 @ map console_line latest_data\<rparr> in
            bind_err (sensor_cells sensor_names latest_data) (\<lambda>cells.
              Inr (st2\<lparr>sim_csv := append_row (CTime ts # cells) (sim_csv st2),
                        sim_sent := sim_sent st2 @ [(TOPIC, latest_data)]\<rparr>)))))"

text \<open>
  The start of the simulated script: mode \<open>"x"\<close> creates the file and fails with
  \<open>FileExistsError\<close> when it exists, which is caught and ignored.
\<close>

definition sim_header :: csv_row where
  "sim_header = CText ''Timestamp'' # map CText sensor_names"

definition sim_main_init :: "sim \<Rightarrow> sim" where
  "sim_main_init st =
     (case sim_csv st of
        None \<Rightarrow> st\<lparr>sim_csv := Some [sim_header]\<rparr>
      | Some rows \<Rightarrow> st)"

text \<open>The state when the module is loaded, before the file has been looked at.\<close>

definition backend_init :: backend where
  "backend_init = \<lparr>connected = False, sent = [], data_queue = [], csv_file = None, logs = []\<rparr>"

definition sim_init :: sim where
  "sim_init = \<lparr>sim_queue = [], sim_csv = None, sim_sent = [], console = []\<rparr>"

text \<open>A snapshot whose seven channels all read 0.\<close>

definition zero_snapshot :: "string \<rightharpoonup> pyval" where
  "zero_snapshot =
     [''oxygen'' \<mapsto> PInt 0, ''uv'' \<mapsto> PInt 0, ''pressure'' \<mapsto> PInt 0,
      ''solar'' \<mapsto> PInt 0, ''temp_humidity'' \<mapsto> PInt 0, ''co2'' \<mapsto> PInt 0,
      ''air_quality'' \<mapsto> PInt 0]"

text \<open>How often the row \<open>h\<close> occurs in a file.\<close>

definition header_count :: "csv_row \<Rightarrow> csv_row list option \<Rightarrow> nat" where
  "header_count h f = (case f of None \<Rightarrow> 0 | Some rows \<Rightarrow> count_list rows h)"

text \<open>The readings of the scenario snapshot and of the zero snapshot.\<close>

definition scenario_result :: reading where
  "scenario_result =
     \<lparr>Temperature = dec2 3421, Humidity = dec2 6843, CO2 = dec2 58651,
      Oxygen = dec2 1051, UV_Index = dec2 100, Solar_Radiation = dec2 99707,
      Air_Quality = dec2 4888, GSR = dec2 8309, Atmospheric_Pressure = dec2 50000\<rparr>"

definition zero_result :: reading where
  "zero_result =
     \<lparr>Temperature = dec2 0, Humidity = dec2 0, CO2 = dec2 0,
      Oxygen = dec2 0, UV_Index = dec2 0, Solar_Radiation = dec2 0,
      Air_Quality = dec2 0, GSR = dec2 0, Atmospheric_Pressure = dec2 0\<rparr>"

text \<open>Two snapshots of the simulated sensors, an older and a newer one.\<close>

definition older_snapshot :: snapshot where
  "older_snapshot = map (\<lambda>n. (n, Some (dec2 100))) sensor_names"

definition newer_snapshot :: snapshot where
  "newer_snapshot = map (\<lambda>n. (n, Some (dec2 200))) sensor_names"

text \<open>
  The acceptance condition in the words of the specification: the record maps every
  channel name to a numeric value. The channel names are the seven that
  \<open>convert_values\<close> reads.
\<close>

definition channel_names :: "string list" where
  "channel_names =
     [''oxygen'', ''uv'', ''pressure'', ''solar'', ''temp_humidity'', ''co2'', ''air_quality'']"

fun is_numeric :: "pyval \<Rightarrow> bool" where
  "is_numeric (PInt i) = True"
| "is_numeric (PFloat x) = True"
| "is_numeric v = False"

definition maps_channels_to_numbers :: "(string \<rightharpoonup> pyval) \<Rightarrow> bool" where
  "maps_channels_to_numbers d =
     list_all (\<lambda>k. case d k of None \<Rightarrow> False | Some v \<Rightarrow> is_numeric v) channel_names"

text \<open>The clamp of the specification: force \<open>r\<close> into \<open>[0, 1023]\<close>.\<close>

definition clamp :: "int \<Rightarrow> int" where
  "clamp r = max 0 (min 1023 r)"

section \<open>Properties of the calibrator\<close>

lemmas fl_eval = ilog2.simps rne_div_def rne_pick_def shl_def fl_pos_def fl_exp_def fl_sig_def
  fl_norm_def fl_q_def fdiv_int_def fmul_int_def round_hundredths_def

lemma calibrate_int: "calibrate (PInt r) = Some (clamp r)"
  by (simp add: calibrate_def clamp_def)

text \<open>
  Claim C5. For every integer raw value, \<open>calibrate\<close> is monotonic non-decreasing, its
  result lies in \<open>[0, 1023]\<close>, and the result is that of the clamped value.
\<close>

theorem calibrate_monotone_bounded_clamp:
  "(r \<le> s \<longrightarrow>
      (\<exists>a b. calibrate (PInt r) = Some a \<and> calibrate (PInt s) = Some b \<and> a \<le> b))
   \<and> (\<exists>a. calibrate (PInt r) = Some a \<and> 0 \<le> a \<and> a \<le> 1023)
   \<and> calibrate (PInt r) = calibrate (PInt (clamp r))"
  by (simp add: calibrate_def clamp_def)

theorem calibrate_monotone_bounded_clamp_witness:
  "(-5::int) \<le> 2000
   \<and> calibrate (PInt (-5)) = Some 0 \<and> calibrate (PInt 2000) = Some 1023
   \<and> calibrate (PInt 2000) = calibrate (PInt (clamp 2000))"
  using calibrate_monotone_bounded_clamp [of "-5" 2000]
  by (simp add: calibrate_def clamp_def)


subsection \<open>The end-to-end scenario\<close>

lemma scenario_scaled:
  "py_round2 (fmul_int (fdiv_int 700 1023) 50) = dec2 3421"
  "py_round2 (fmul_int (fdiv_int 700 1023) 100) = dec2 6843"
  "py_round2 (fmul_int (fdiv_int 300 1023) 2000) = dec2 58651"
  "py_round2 (fmul_int (fdiv_int 512 1023) 21) = dec2 1051"
  "py_round2 (fmul_int (fdiv_int 93 1023) 11) = dec2 100"
  "py_round2 (fmul_int (fdiv_int 850 1023) 1200) = dec2 99707"
  "py_round2 (fmul_int (fdiv_int 100 1023) 500) = dec2 4888"
  "py_round2 (fmul_int (fdiv_int 850 1023) 100) = dec2 8309"
  "py_round2 (fmul_int (fdiv_int 465 1023) 1100) = dec2 50000"
  by (simp_all add: py_round2_def fl_eval)

lemma scenario_calibrated:
  "calibrate (PInt 512) = Some 512" "calibrate (PInt 93) = Some 93"
  "calibrate (PInt 465) = Some 465" "calibrate (PInt 850) = Some 850"
  "calibrate (PInt 700) = Some 700" "calibrate (PInt 300) = Some 300"
  "calibrate (PInt 100) = Some 100"
  by (simp_all add: calibrate_def)

lemma scenario_value:
  "convert_values scenario_snapshot =
     Inr \<lparr>Temperature = dec2 3421, Humidity = dec2 6843, CO2 = dec2 58651,
          Oxygen = dec2 1051, UV_Index = dec2 100, Solar_Radiation = dec2 99707,
          Air_Quality = dec2 4888, GSR = dec2 8309, Atmospheric_Pressure = dec2 50000\<rparr>"
  by (simp add: convert_values_def scenario_snapshot_def getitem_def scenario_calibrated
      scenario_scaled)

lemma dec2_values:
  "dec2 0 = (0, 0)"
  "dec2 3421 = (4814629476635771, - 47)"
  "dec2 58651 = (5158996518455214, - 43)"
  "dec2 58612 = (5155566042176553, - 43)"
  "dec2 99707 = (8770320469652931, - 43)"
  "dec2 8309 = (5846938953722102, - 46)"
  by (simp_all add: dec2_def fl_eval)

text \<open>
  Claim C1, as amended. For the snapshot of the scenario, \<open>convert_values\<close> returns
  Temperature 34.21, Humidity 68.43, CO2 586.51, Oxygen 10.51, UV Index 1.0,
  Solar Radiation 997.07, Air Quality 48.88, GSR 83.09 and Atmospheric Pressure 500.0:
  each is \<open>(raw / 1023) * channel_max\<close> rounded to two places.
\<close>

theorem scenario_reading:
  "convert_values scenario_snapshot =
     Inr \<lparr>Temperature = dec2 3421, Humidity = dec2 6843, CO2 = dec2 58651,
          Oxygen = dec2 1051, UV_Index = dec2 100, Solar_Radiation = dec2 99707,
          Air_Quality = dec2 4888, GSR = dec2 8309, Atmospheric_Pressure = dec2 50000\<rparr>"
  by (rule scenario_value)

text \<open>
  Claim C1, as stated, fails: the reading is not the one with CO2 586.12,
  Solar Radiation 996.09, GSR 83.01 and Atmospheric Pressure 499.76.
\<close>

theorem scenario_reading_not_as_claimed:
  "convert_values scenario_snapshot \<noteq>
     Inr \<lparr>Temperature = dec2 3421, Humidity = dec2 6843, CO2 = dec2 58612,
          Oxygen = dec2 1051, UV_Index = dec2 100, Solar_Radiation = dec2 99609,
          Air_Quality = dec2 4888, GSR = dec2 8301, Atmospheric_Pressure = dec2 49976\<rparr>"
  by (simp add: scenario_value dec2_values)

subsection \<open>Non-numeric and absent channels\<close>

lemma calibrate_non_numeric:
  "calibrate (PStr ''abc'') = None" "calibrate PNone = None"
  by (simp_all add: calibrate_def int_of_str_def strip_def is_space_def is_digit_def)

text \<open>
  Claim C2 fails on the code. For a non-numeric channel \<open>calibrate\<close> returns \<open>None\<close>, and
  \<open>convert_values\<close> then divides \<open>None\<close> by 1023: it raises \<open>TypeError\<close> instead of
  returning a reading with a sentinel. For an absent channel it raises \<open>KeyError\<close>.
\<close>

theorem convert_values_raises:
  "convert_values (scenario_snapshot(''oxygen'' \<mapsto> PStr ''abc'')) = Inl TypeError
   \<and> convert_values (scenario_snapshot(''oxygen'' \<mapsto> PNone)) = Inl TypeError
   \<and> convert_values (scenario_snapshot(''oxygen'' := None)) = Inl KeyError"
  by (simp add: convert_values_def scenario_snapshot_def getitem_def scenario_calibrated
      calibrate_non_numeric scenario_scaled)

section \<open>Properties of the threshold check\<close>

lemma sensor_names_distinct_from_key:
  "map_of THRESHOLDS (''Temperature ('' @ [CHR 0xB0] @ ''C)'') = None"
  by (simp add: THRESHOLDS_def)

text \<open>
  Claim C6. For an unavailable reading (\<open>None\<close>) the threshold check returns ERROR,
  whatever the quantity; for a present value it returns Normal or ALERT, never ERROR.
\<close>

theorem check_threshold_unavailable:
  "check_threshold n None = ''ERROR''
   \<and> (v \<noteq> None \<longrightarrow> check_threshold n v = ''Normal'' \<or> check_threshold n v = ''ALERT'')
   \<and> (check_threshold n v = ''ERROR'') = (v = None)"
  by (auto simp: check_threshold_def split: option.splits)

theorem check_threshold_unavailable_witness:
  "Some (dec2 150000) \<noteq> None
   \<and> check_threshold ''CO2 (ppm)'' None = ''ERROR''
   \<and> check_threshold ''CO2 (ppm)'' (Some (dec2 150000)) = ''ALERT''
   \<and> check_threshold ''CO2 (ppm)'' (Some (dec2 150000)) \<noteq> ''ERROR''"
  using check_threshold_unavailable [of "''CO2 (ppm)''" "Some (dec2 150000)"]
  by (simp add: check_threshold_def THRESHOLDS_def double_gt_int_def dec2_def fl_eval)

text \<open>
  Claim C10. The key of the threshold table is \<open>Temperature (\<degree>C\<close>, without the closing
  bracket, so for the sensor named \<open>Temperature (\<degree>C)\<close> every present value is Normal;
  among the nine sensor names only \<open>CO2 (ppm)\<close> and \<open>Air Quality (AQI)\<close> can give ALERT.
\<close>

theorem temperature_never_alert:
  "check_threshold (''Temperature ('' @ [CHR 0xB0] @ ''C)'') (Some x) = ''Normal''
   \<and> (n \<in> set sensor_names \<and> check_threshold n v = ''ALERT''
        \<longrightarrow> n = ''CO2 (ppm)'' \<or> n = ''Air Quality (AQI)'')"
  by (auto simp: check_threshold_def THRESHOLDS_def sensor_names_def
      split: option.splits if_splits)

theorem temperature_never_alert_witness:
  "''Air Quality (AQI)'' \<in> set sensor_names
   \<and> check_threshold ''Air Quality (AQI)'' (Some (dec2 20001)) = ''ALERT''
   \<and> check_threshold (''Temperature ('' @ [CHR 0xB0] @ ''C)'') (Some (dec2 3500)) = ''Normal''"
  using temperature_never_alert [of "dec2 3500" "''Air Quality (AQI)''" "Some (dec2 20001)"]
  by (simp add: check_threshold_def THRESHOLDS_def sensor_names_def double_gt_int_def
      dec2_def fl_eval)

section \<open>Properties of the persistence and of the publisher\<close>

text \<open>
  Claim C8. Initialising twice never duplicates the header: a store that exists is left
  as it is (no row added, nothing logged, no error), and a store that does not exist is
  created with the header exactly once. This holds for \<open>ensure_csv\<close> of the backend and
  for the start of the simulated script.
\<close>

theorem ensure_csv_twice:
  "ensure_csv (ensure_csv st) = ensure_csv st
   \<and> (csv_file st \<noteq> None \<longrightarrow> ensure_csv st = st)
   \<and> (csv_file st = None \<longrightarrow> csv_file (ensure_csv (ensure_csv st)) = Some [csv_header])
   \<and> header_count csv_header (csv_file (ensure_csv (ensure_csv st)))
       = (if csv_file st = None then 1 else header_count csv_header (csv_file st))
   \<and> (header_count csv_header (csv_file st) \<le> 1
        \<longrightarrow> header_count csv_header (csv_file (ensure_csv (ensure_csv st))) \<le> 1)
   \<and> logs (ensure_csv (ensure_csv st)) = logs st
   \<and> sim_main_init (sim_main_init sm) = sim_main_init sm
   \<and> (sim_csv sm \<noteq> None \<longrightarrow> sim_main_init sm = sm)
   \<and> (sim_csv sm = None \<longrightarrow> sim_csv (sim_main_init (sim_main_init sm)) = Some [sim_header])
   \<and> header_count sim_header (sim_csv (sim_main_init (sim_main_init sm)))
       = (if sim_csv sm = None then 1 else header_count sim_header (sim_csv sm))"
  by (auto simp: ensure_csv_def sim_main_init_def header_count_def split: option.splits)

theorem ensure_csv_twice_witness:
  "csv_file backend_init = None
   \<and> csv_file (ensure_csv (ensure_csv backend_init)) = Some [csv_header]
   \<and> csv_file (ensure_csv backend_init) \<noteq> None
   \<and> header_count csv_header (csv_file (ensure_csv backend_init)) \<le> 1
   \<and> header_count csv_header (csv_file (ensure_csv (ensure_csv (ensure_csv backend_init)))) = 1
   \<and> sim_csv sim_init = None
   \<and> sim_csv (sim_main_init (sim_main_init sim_init)) = Some [sim_header]
   \<and> sim_csv (sim_main_init sim_init) \<noteq> None
   \<and> header_count sim_header
        (sim_csv (sim_main_init (sim_main_init (sim_main_init sim_init)))) = 1"
  using ensure_csv_twice [of backend_init sim_init]
    ensure_csv_twice [of "ensure_csv backend_init" "sim_main_init sim_init"]
  by (simp add: backend_init_def sim_init_def ensure_csv_def sim_main_init_def header_count_def)

text \<open>
  Claim C9. While the flag is false, \<open>publish\<close> sends nothing and only logs a warning.
  Of all the operations on the client, only a connect callback with \<open>rc = 0\<close> makes the
  flag true; a disconnect callback makes it false, so the next \<open>publish\<close> sends nothing.
\<close>

theorem publish_disconnected:
  "(\<not> connected st \<longrightarrow>
      publish topic pl st = st\<lparr>logs := logs st @ [(WARNING, MQTT_not_connected)]\<rparr>
      \<and> sent (publish topic pl st) = sent st)
   \<and> (connected (mqtt_step ev st) \<and> \<not> connected st \<longrightarrow> ev = On_connect 0)
   \<and> connected (on_connect rc st) = (rc = 0)
   \<and> \<not> connected (on_disconnect rc st)
   \<and> sent (publish topic pl (on_disconnect rc st)) = sent st"
proof -
  have flag: "connected (mqtt_step ev st) \<and> \<not> connected st \<longrightarrow> ev = On_connect 0"
    by (cases ev)
      (auto simp: MQTTClient_init_def start_def on_connect_def on_disconnect_def publish_def
        logging_def Let_def split: if_splits)
  show ?thesis
    using flag by (simp add: publish_def on_connect_def on_disconnect_def logging_def Let_def)
qed

theorem publish_disconnected_witness:
  "\<not> connected backend_init
   \<and> sent (publish TOPIC (Heartbeat_JSON 0) backend_init) = []
   \<and> logs (publish TOPIC (Heartbeat_JSON 0) backend_init) = [(WARNING, MQTT_not_connected)]
   \<and> connected (mqtt_step (On_connect 0) backend_init)
   \<and> \<not> connected (mqtt_step (On_connect 5) backend_init)
   \<and> sent (publish TOPIC (Heartbeat_JSON 0) (on_connect 0 backend_init))
       = [(TOPIC, Heartbeat_JSON 0)]
   \<and> sent (publish TOPIC (Heartbeat_JSON 0) (on_disconnect 0 (on_connect 0 backend_init))) = []"
  using publish_disconnected [of backend_init TOPIC "Heartbeat_JSON 0" "On_connect 0" 0]
    publish_disconnected [of "on_connect 0 backend_init" TOPIC "Heartbeat_JSON 0" "On_connect 0" 0]
  by (simp add: backend_init_def publish_def on_connect_def on_disconnect_def logging_def
      Let_def)

section \<open>Properties of the serial reader\<close>

lemmas json_eval = json_loads_flat_def is_json_space_def is_lower_def is_digit_def
  num_token_def word_token_def punct_token_def digit_val_def

lemma strip_examples:
  "strip ''  {\"solar\": 850} '' = ''{\"solar\": 850}''"
  "strip ''{\"foo\": \"bar\"}'' = ''{\"foo\": \"bar\"}''"
  "strip ''hello'' = ''hello''"
  by (simp_all add: strip_def is_space_def)

lemma json_examples:
  "json_loads_flat ''{\"solar\": 850}'' = Inr [''solar'' \<mapsto> PInt 850]"
  "json_loads_flat ''{\"foo\": \"bar\"}'' = Inr [''foo'' \<mapsto> PStr ''bar'']"
  by (simp_all add: json_eval)

text \<open>
  Claim C7, as stated, fails: the line \<open>{"foo": "bar"}\<close> is enqueued, although it maps
  none of the channel names and its value is not numeric.
\<close>

theorem serial_reader_enqueues_any_object:
  "data_queue (serial_reader_step json_loads_flat (Inr ''{\"foo\": \"bar\"}'') backend_init)
     = [[''foo'' \<mapsto> PStr ''bar'']]
   \<and> \<not> maps_channels_to_numbers [''foo'' \<mapsto> PStr ''bar'']"
  by (simp add: serial_reader_step_def strip_examples json_examples startswith_brace_def
      endswith_brace_def backend_init_def maps_channels_to_numbers_def channel_names_def)

text \<open>
  Claim C7, as amended. A line is enqueued exactly when, stripped of white space, it is
  not empty, begins with \<open>{\<close>, ends with \<open>}\<close> and \<open>json.loads\<close> parses it; the parsed
  value is enqueued whatever its keys and values. An empty line is skipped without a log
  entry; a line failing the bracket test is logged as a warning and skipped; a line that
  does not parse, and a failed read, are logged as errors and skipped.
\<close>

theorem serial_reader_enqueue:
  "(input = Inr text \<and> strip text \<noteq> [] \<and> startswith_brace (strip text)
      \<and> endswith_brace (strip text) \<and> loads (strip text) = Inr d
      \<longrightarrow> serial_reader_step loads input st = st\<lparr>data_queue := data_queue st @ [d]\<rparr>)
   \<and> (data_queue (serial_reader_step loads input st) = data_queue st
        \<or> (\<exists>text' d'. input = Inr text' \<and> strip text' \<noteq> [] \<and> startswith_brace (strip text')
              \<and> endswith_brace (strip text') \<and> loads (strip text') = Inr d'
              \<and> data_queue (serial_reader_step loads input st) = data_queue st @ [d']))
   \<and> (input = Inr text \<and> strip text = [] \<longrightarrow> serial_reader_step loads input st = st)
   \<and> (input = Inr text \<and> strip text \<noteq> []
        \<and> \<not> (startswith_brace (strip text) \<and> endswith_brace (strip text))
        \<longrightarrow> serial_reader_step loads input st = logging WARNING (Bad_JSON (strip text)) st)
   \<and> (input = Inr text \<and> strip text \<noteq> [] \<and> startswith_brace (strip text)
        \<and> endswith_brace (strip text) \<and> loads (strip text) = Inl err
        \<longrightarrow> serial_reader_step loads input st = logging ERROR (Serial_read_error err) st)
   \<and> (input = Inl err
        \<longrightarrow> serial_reader_step loads input st = logging ERROR (Serial_read_error err) st)"
  by (auto simp: serial_reader_step_def logging_def Let_def split: sum.splits)

theorem serial_reader_enqueue_witness:
  "strip ''  {\"solar\": 850} '' \<noteq> []
   \<and> startswith_brace (strip ''  {\"solar\": 850} '')
   \<and> endswith_brace (strip ''  {\"solar\": 850} '')
   \<and> json_loads_flat (strip ''  {\"solar\": 850} '') = Inr [''solar'' \<mapsto> PInt 850]
   \<and> serial_reader_step json_loads_flat (Inr ''  {\"solar\": 850} '') backend_init
       = backend_init\<lparr>data_queue := [[''solar'' \<mapsto> PInt 850]]\<rparr>
   \<and> \<not> (startswith_brace (strip ''hello'') \<and> endswith_brace (strip ''hello''))
   \<and> serial_reader_step json_loads_flat (Inr ''hello'') backend_init
       = logging WARNING (Bad_JSON ''hello'') backend_init"
  using serial_reader_enqueue [of "Inr ''  {\"solar\": 850} ''" "''  {\"solar\": 850} ''"
      json_loads_flat "[''solar'' \<mapsto> PInt 850]" backend_init JSONDecodeError]
    serial_reader_enqueue [of "Inr ''hello''" "''hello''" json_loads_flat Map.empty
      backend_init JSONDecodeError]
  by (simp add: strip_examples json_examples startswith_brace_def endswith_brace_def
      backend_init_def)

section \<open>Properties of the processors\<close>

lemma zero_scaled: "py_round2 (fmul_int (fdiv_int 0 1023) k) = dec2 0"
  by (simp add: py_round2_def fl_eval)

lemma zero_value: "convert_values zero_snapshot = Inr zero_result"
  by (simp add: convert_values_def zero_snapshot_def getitem_def calibrate_def zero_scaled
      zero_result_def)

lemma sensor_cells_values:
  "sensor_cells ns snap = Inr cells \<Longrightarrow> cells = map (\<lambda>n. value_cell (the (map_of snap n))) ns"
proof (induction ns arbitrary: cells)
  case Nil
  then show ?case by simp
next
  case (Cons n ns)
  from Cons.prems obtain v where v: "map_of snap n = Some v"
    by (cases "map_of snap n") (auto simp: getitem_def)
  from Cons.prems v obtain rest where rest: "sensor_cells ns snap = Inr rest"
    and cells: "cells = value_cell v # rest"
    by (cases "sensor_cells ns snap") (auto simp: getitem_def)
  from Cons.IH [OF rest] cells v show ?case by simp
qed

text \<open>
  Claim C3, as stated, fails in the backend: with two snapshots queued, the pass persists
  the calibration of the first one enqueued (Temperature 34.21, ...) and leaves the last
  one, whose calibration is all zeros, in the queue.
\<close>

theorem backend_processor_takes_oldest:
  "data_processor_step ''pi'' 0 0 (backend_init\<lparr>data_queue := [scenario_snapshot, zero_snapshot]\<rparr>)
     = Inr \<lparr>connected = False, sent = [], data_queue = [zero_snapshot],
            csv_file = Some [reading_row 0 scenario_result],
            logs = [(INFO, Calibrated scenario_result), (WARNING, MQTT_not_connected),
                    (WARNING, MQTT_not_connected)]\<rparr>
   \<and> convert_values zero_snapshot = Inr zero_result
   \<and> reading_row 0 scenario_result \<noteq> reading_row 0 zero_result"
  by (simp add: data_processor_step_def backend_init_def scenario_value zero_value
      scenario_result_def zero_result_def publish_def write_csv_def logging_def append_row_def
      reading_row_def dec2_values)

text \<open>
  Claim C3, as amended. In the simulated pipeline a pass over a non-empty queue drains
  it, and the single row it persists (and the payload it publishes) holds the values of
  the last snapshot enqueued, as they were read: latest wins, the older entries are
  discarded, and nothing is calibrated. In the backend a pass takes one entry, the
  oldest, persists its calibration, and leaves the newer entries queued in order.
\<close>

theorem processor_cycle:
  "(sim_queue sm \<noteq> [] \<and> last (sim_queue sm) = (ts, snap)
      \<and> sensor_cells sensor_names snap = Inr cells
      \<longrightarrow> (\<exists>sm'. sim_processor_step sm = Inr sm'
             \<and> sim_csv sm' = append_row (CTime ts # cells) (sim_csv sm)
             \<and> cells = map (\<lambda>n. value_cell (the (map_of snap n))) sensor_names
             \<and> sim_sent sm' = sim_sent sm @ [(TOPIC, snap)]
             \<and> sim_queue sm' = []))
   \<and> (data_queue st = raw # rest \<and> convert_values raw = Inr r
        \<longrightarrow> (\<exists>st'. data_processor_step hostname utcnow now st = Inr st'
               \<and> csv_file st' = append_row (reading_row utcnow r) (csv_file st)
               \<and> data_queue st' = rest))"
proof -
  have sim_part: "sim_queue sm \<noteq> [] \<and> last (sim_queue sm) = (ts, snap)
      \<and> sensor_cells sensor_names snap = Inr cells
      \<longrightarrow> (\<exists>sm'. sim_processor_step sm = Inr sm'
             \<and> sim_csv sm' = append_row (CTime ts # cells) (sim_csv sm)
             \<and> cells = map (\<lambda>n. value_cell (the (map_of snap n))) sensor_names
             \<and> sim_sent sm' = sim_sent sm @ [(TOPIC, snap)]
             \<and> sim_queue sm' = [])"
    using sensor_cells_values [of sensor_names snap cells]
    by (auto simp: sim_processor_step_def Let_def)
  have live_part: "data_queue st = raw # rest \<and> convert_values raw = Inr r
        \<longrightarrow> (\<exists>st'. data_processor_step hostname utcnow now st = Inr st'
               \<and> csv_file st' = append_row (reading_row utcnow r) (csv_file st)
               \<and> data_queue st' = rest)"
    by (auto simp: data_processor_step_def publish_def write_csv_def logging_def)
  from sim_part live_part show ?thesis by blast
qed

lemma newer_cells:
  "sensor_cells sensor_names newer_snapshot = Inr (replicate 9 (CNum (dec2 200)))"
  by (simp add: sensor_names_def newer_snapshot_def getitem_def value_cell_def
      numeral_eq_Suc)

theorem processor_cycle_witness:
  "sim_queue (sim_init\<lparr>sim_queue := [(1, older_snapshot), (2, newer_snapshot)]\<rparr>) \<noteq> []
   \<and> last (sim_queue (sim_init\<lparr>sim_queue := [(1, older_snapshot), (2, newer_snapshot)]\<rparr>))
       = (2, newer_snapshot)
   \<and> sensor_cells sensor_names newer_snapshot = Inr (replicate 9 (CNum (dec2 200)))
   \<and> sim_processor_step (sim_init\<lparr>sim_queue := [(1, older_snapshot), (2, newer_snapshot)]\<rparr>)
       = Inr \<lparr>sim_queue = [], sim_csv = Some [CTime 2 # replicate 9 (CNum (dec2 200))],
              sim_sent = [(TOPIC, newer_snapshot)],
              console = map console_line newer_snapshot\<rparr>
   \<and> data_queue (backend_init\<lparr>data_queue := [scenario_snapshot, zero_snapshot]\<rparr>)
       = scenario_snapshot # [zero_snapshot]
   \<and> convert_values scenario_snapshot = Inr scenario_result
   \<and> (\<exists>st'. data_processor_step ''pi'' 0 0
               (backend_init\<lparr>data_queue := [scenario_snapshot, zero_snapshot]\<rparr>) = Inr st'
          \<and> csv_file st' = Some [reading_row 0 scenario_result]
          \<and> data_queue st' = [zero_snapshot])"
  using processor_cycle [of "sim_init\<lparr>sim_queue := [(1, older_snapshot), (2, newer_snapshot)]\<rparr>"
      2 newer_snapshot "replicate 9 (CNum (dec2 200))"
      "backend_init\<lparr>data_queue := [scenario_snapshot, zero_snapshot]\<rparr>"
      scenario_snapshot "[zero_snapshot]" scenario_result "''pi''" 0 0]
  by (simp add: sim_init_def backend_init_def newer_cells scenario_value scenario_result_def
      append_row_def sim_processor_step_def Let_def)

section \<open>The ratio of Solar Radiation and GSR\<close>

subsection \<open>Rounding errors of the float operations\<close>

lemma ilog2_bounds:
  "1 \<le> n \<Longrightarrow> 0 \<le> ilog2 n \<and> 2 ^ nat (ilog2 n) \<le> n \<and> n < 2 * 2 ^ nat (ilog2 n)"
proof (induction n rule: ilog2.induct)
  case (1 n)
  show ?case
  proof (cases "n \<le> 1")
    case True
    with "1.prems" have "n = 1" by simp
    then show ?thesis by (simp add: ilog2.simps)
  next
    case False
    then have half: "1 \<le> n div 2" by simp
    from "1.IH" [OF False half]
    have ih: "0 \<le> ilog2 (n div 2)" "2 ^ nat (ilog2 (n div 2)) \<le> n div 2"
      "n div 2 < 2 * 2 ^ nat (ilog2 (n div 2))"
      by simp_all
    have eq: "ilog2 n = 1 + ilog2 (n div 2)"
      using False by (simp add: ilog2.simps [of n])
    have nat_eq: "nat (ilog2 n) = Suc (nat (ilog2 (n div 2)))"
      using eq ih(1) by simp
    show ?thesis
      using ih eq nat_eq by (simp, linarith)
  qed
qed

lemma shl_pos: "0 < q \<Longrightarrow> 0 < shl q s"
  by (simp add: shl_def)

lemma shl_ratio:
  "q \<noteq> 0 \<Longrightarrow> real_of_int (shl p s) / real_of_int (shl q (- s)) = (of_int p / of_int q) * 2 powi s"
proof (cases "0 \<le> s")
  case True
  assume "q \<noteq> 0"
  show ?thesis
  proof (cases "s = 0")
    case True
    then show ?thesis by (simp add: shl_def)
  next
    case False
    with True have "0 < s" by simp
    then show ?thesis
      by (simp add: shl_def power_int_def)
  qed
next
  case False
  assume "q \<noteq> 0"
  from False have "s < 0" by simp
  then show ?thesis
    by (simp add: shl_def power_int_def field_simps)
qed

lemma rne_div_err:
  assumes "0 < q"
  shows "\<bar>real_of_int (rne_div p q) - of_int p / of_int q\<bar> \<le> 1 / 2"
proof -
  define d where "d = p div q"
  define r where "r = p mod q"
  have p: "p = q * d + r" by (simp add: d_def r_def)
  have r: "0 \<le> r" "r < q" using assms by (simp_all add: r_def)
  have frac: "of_int p / of_int q = real_of_int d + of_int r / of_int q"
    using assms by (simp add: p field_simps)
  have rq: "0 \<le> real_of_int r / of_int q" "real_of_int r / of_int q < 1"
    using r assms by simp_all
  consider "2 * r < q" | "q < 2 * r" | "2 * r = q" by linarith
  then show ?thesis
  proof cases
    case 1
    then have "real_of_int r / of_int q < 1 / 2"
      using assms by (simp add: field_simps)
    with 1 rq show ?thesis
      by (simp add: rne_div_def rne_pick_def d_def [symmetric] r_def [symmetric] frac)
  next
    case 2
    then have "1 / 2 < real_of_int r / of_int q"
      using assms by (simp add: field_simps)
    with 2 rq show ?thesis
      by (simp add: rne_div_def rne_pick_def d_def [symmetric] r_def [symmetric] frac)
  next
    case 3
    then have h: "real_of_int r / of_int q = 1 / 2"
      using assms by (simp add: field_simps)
    from 3 have "rne_div p q = d \<or> rne_div p q = d + 1"
      by (simp add: rne_div_def rne_pick_def d_def [symmetric] r_def [symmetric])
    then show ?thesis
      unfolding frac h by auto
  qed
qed


lemma pow2_split: "(2::real) powi (a + b) = 2 powi a * 2 powi b"
  by (simp add: power_int_add)

lemma pow2_inverse: "(2::real) powi a * 2 powi (- a) = 1"
  by (simp add: power_int_minus)

lemma fl_norm_val: "dval (fl_norm m e) = of_int m * 2 powi (e - 52)"
proof -
  have "(2::real) powi (e - 51) = 2 powi ((e - 52) + 1)" by simp
  also have "\<dots> = 2 powi (e - 52) * 2" by (simp only: pow2_split) simp
  finally show ?thesis by (simp add: fl_norm_def dval_def)
qed

lemma fl_sig_err:
  assumes "0 < p" "0 < q"
  shows "\<bar>dval (fl_sig p q e) - of_int p / of_int q\<bar> \<le> 2 powi (e - 53)"
proof -
  define R where "R = real_of_int p / real_of_int q"
  define M where "M = rne_div (shl p (52 - e)) (shl q (e - 52))"
  have ratio: "real_of_int (shl p (52 - e)) / real_of_int (shl q (e - 52)) = R * 2 powi (52 - e)"
    using shl_ratio [of q p "52 - e"] assms by (simp add: R_def)
  have m: "\<bar>real_of_int M - R * 2 powi (52 - e)\<bar> \<le> 1 / 2"
    using rne_div_err [of "shl q (e - 52)" "shl p (52 - e)"] shl_pos [OF assms(2)]
    by (simp add: M_def ratio)
  have one: "(2::real) powi (52 - e) * 2 powi (e - 52) = 1"
    using pow2_inverse [of "52 - e"] by simp
  have val: "dval (fl_sig p q e) = of_int M * 2 powi (e - 52)"
    by (simp add: fl_sig_def fl_norm_val M_def)
  have "dval (fl_sig p q e) - R = (of_int M - R * 2 powi (52 - e)) * 2 powi (e - 52)"
    using one by (simp add: val algebra_simps)
  then have "\<bar>dval (fl_sig p q e) - R\<bar> = \<bar>of_int M - R * 2 powi (52 - e)\<bar> * 2 powi (e - 52)"
    by (simp add: abs_mult)
  also have "\<dots> \<le> 1 / 2 * 2 powi (e - 52)"
    using m by (intro mult_right_mono) simp_all
  also have "\<dots> = 2 powi (e - 53)"
  proof -
    have "(2::real) powi (e - 52) = 2 powi ((e - 53) + 1)" by simp
    also have "\<dots> = 2 powi (e - 53) * 2" by (simp only: pow2_split) simp
    finally show ?thesis by simp
  qed
  finally show ?thesis by (simp add: R_def)
qed

lemma ilog2_real:
  assumes "1 \<le> n"
  shows "2 powi (ilog2 n) \<le> real_of_int n" "real_of_int n < 2 * 2 powi (ilog2 n)"
proof -
  from ilog2_bounds [OF assms]
  have b: "0 \<le> ilog2 n" "2 ^ nat (ilog2 n) \<le> n" "n < 2 * 2 ^ nat (ilog2 n)" by simp_all
  have pw: "(2::real) powi (ilog2 n) = 2 ^ nat (ilog2 n)"
    using b(1) by (simp add: power_int_def)
  have "real_of_int (2 ^ nat (ilog2 n)) \<le> real_of_int n"
    using b(2) by (simp only: of_int_le_iff)
  then show "2 powi (ilog2 n) \<le> real_of_int n" by (simp add: pw)
  have "real_of_int n < real_of_int (2 * 2 ^ nat (ilog2 n))"
    using b(3) by (simp only: of_int_less_iff)
  then show "real_of_int n < 2 * 2 powi (ilog2 n)" by (simp add: pw)
qed

lemma fl_exp_lower:
  assumes "0 < p" "0 < q"
  defines "b \<equiv> ilog2 p - ilog2 q"
  defines "e \<equiv> (if shl q b \<le> shl p (- b) then b else b - 1)"
  shows "2 powi e \<le> real_of_int p / real_of_int q"
proof (cases "shl q b \<le> shl p (- b)")
  case True
  have pos: "0 < real_of_int (shl q b)" using shl_pos [OF assms(2)] by simp
  from True have "real_of_int (shl q b) \<le> real_of_int (shl p (- b))" by (simp only: of_int_le_iff)
  then have "1 \<le> real_of_int (shl p (- b)) / real_of_int (shl q b)"
    using pos by (simp add: field_simps)
  also have "\<dots> = (of_int p / of_int q) * 2 powi (- b)"
    using shl_ratio [of q p "- b"] assms(2) by simp
  finally have one: "1 \<le> (real_of_int p / real_of_int q) * 2 powi (- b)" .
  have "1 * (2::real) powi b \<le> ((real_of_int p / real_of_int q) * 2 powi (- b)) * 2 powi b"
    using one by (intro mult_right_mono) simp_all
  then have "2 powi b \<le> real_of_int p / of_int q"
    using pow2_inverse [of "- b"] by (simp add: mult.assoc)
  with True show ?thesis by (simp add: e_def)
next
  case False
  have lp: "2 powi (ilog2 p) \<le> real_of_int p" using ilog2_real(1) [of p] assms(1) by simp
  have lq: "real_of_int q < 2 * 2 powi (ilog2 q)" using ilog2_real(2) [of q] assms(2) by simp
  have qpos: "0 < real_of_int q" using assms(2) by simp
  have ex: "b - 1 = ilog2 p + (- ilog2 q - 1)" by (simp add: b_def)
  have "(2::real) powi (b - 1) = 2 powi (ilog2 p + (- ilog2 q - 1))"
    by (subst ex) (rule refl)
  also have "\<dots> = 2 powi (ilog2 p) * 2 powi (- ilog2 q - 1)"
    by (simp only: pow2_split)
  also have "\<dots> = 2 powi (ilog2 p) / (2 * 2 powi (ilog2 q))"
  proof -
    have "(2::real) powi (- ilog2 q - 1) = 2 powi (- (ilog2 q + 1))" by simp
    also have "\<dots> = inverse (2 powi (ilog2 q + 1))" by (simp only: power_int_minus)
    also have "\<dots> = inverse (2 powi (ilog2 q) * 2)" by (simp only: pow2_split) simp
    finally show ?thesis by (simp add: field_simps)
  qed
  also have "\<dots> \<le> real_of_int p / (2 * 2 powi (ilog2 q))"
    using lp by (intro divide_right_mono) simp_all
  also have "\<dots> \<le> real_of_int p / real_of_int q"
    using lq qpos assms(1) by (intro divide_left_mono) simp_all
  finally show ?thesis using False by (simp add: e_def)
qed

lemma fl_pos_err:
  assumes "0 < p" "0 < q"
  shows "\<bar>dval (fl_pos p q) - of_int p / of_int q\<bar> \<le> (of_int p / of_int q) * 2 powi (- 53)"
proof -
  define b where "b = ilog2 p - ilog2 q"
  define e where "e = (if shl q b \<le> shl p (- b) then b else b - 1)"
  have fl: "fl_pos p q = fl_sig p q e"
    by (simp add: fl_pos_def fl_exp_def e_def b_def)
  have low: "2 powi e \<le> real_of_int p / real_of_int q"
    using fl_exp_lower [OF assms] unfolding e_def b_def .
  have "\<bar>dval (fl_pos p q) - of_int p / of_int q\<bar> \<le> 2 powi (e - 53)"
    using fl_sig_err [OF assms, of e] by (simp add: fl)
  also have "(2::real) powi (e - 53) = 2 powi (e + (- 53))" by simp
  also have "\<dots> = 2 powi e * 2 powi (- 53)" by (simp only: pow2_split)
  also have "\<dots> \<le> (of_int p / of_int q) * 2 powi (- 53)"
    using low by (intro mult_right_mono) simp_all
  finally show ?thesis .
qed

lemma fl_q_err:
  assumes "0 \<le> p" "0 < q"
  shows "\<bar>dval (fl_q p q) - of_int p / of_int q\<bar> \<le> (of_int p / of_int q) * 2 powi (- 53)"
proof (cases "p = 0")
  case True
  then show ?thesis by (simp add: fl_q_def dval_def)
next
  case False
  with assms have "0 < p" by simp
  then show ?thesis using fl_pos_err [OF _ assms(2), of p] by (simp add: fl_q_def)
qed


lemma fmul_int_err:
  assumes "0 \<le> m" "0 \<le> k"
  shows "\<bar>dval (fmul_int (m, e) k) - of_int k * dval (m, e)\<bar>
           \<le> (of_int k * dval (m, e)) * 2 powi (- 53)"
proof -
  have q: "0 < shl 1 (- e)" by (rule shl_pos) simp
  have p: "0 \<le> shl (m * k) e" using assms by (simp add: shl_def)
  have ratio: "real_of_int (shl (m * k) e) / real_of_int (shl 1 (- e)) = of_int k * dval (m, e)"
    using shl_ratio [of 1 "m * k" e] by (simp add: dval_def mult_ac)
  show ?thesis
    using fl_q_err [OF p q] by (simp add: fmul_int_def ratio)
qed

lemma round_hundredths_err:
  "\<bar>real_of_int (round_hundredths (m, e)) - 100 * dval (m, e)\<bar> \<le> 1 / 2"
proof -
  have q: "0 < shl 1 (- e)" by (rule shl_pos) simp
  have ratio: "real_of_int (shl (m * 100) e) / real_of_int (shl 1 (- e)) = 100 * dval (m, e)"
    using shl_ratio [of 1 "m * 100" e] by (simp add: dval_def mult_ac)
  show ?thesis
    using rne_div_err [OF q, of "shl (m * 100) e"] by (simp add: round_hundredths_def ratio)
qed

lemma eps_small: "(2::real) powi (- 53) \<le> 1 / 1000000000" "0 \<le> (2::real) powi (- 53)"
  by simp_all

lemma fdiv_int_range:
  assumes "0 \<le> c" "c \<le> 1023"
  obtains m e where "fdiv_int c 1023 = (m, e)" "0 \<le> m" "0 \<le> dval (m, e)" "dval (m, e) \<le> 2"
proof -
  obtain m e where me: "fdiv_int c 1023 = (m, e)" by (cases "fdiv_int c 1023")
  define R where "R = real_of_int c / 1023"
  have R: "0 \<le> R" "R \<le> 1" using assms by (simp_all add: R_def)
  have "\<bar>dval (m, e) - R\<bar> \<le> R * 2 powi (- 53)"
    using fl_q_err [of c 1023] assms(1) me by (simp add: fdiv_int_def R_def)
  moreover have "R * 2 powi (- 53) \<le> R * (1 / 1000000000)"
    using R(1) eps_small(1) by (intro mult_left_mono) simp_all
  ultimately have b: "\<bar>dval (m, e) - R\<bar> \<le> R / 1000000000" by simp
  from b R have v: "0 \<le> dval (m, e)" "dval (m, e) \<le> 2" by linarith+
  have "0 \<le> real_of_int m * 2 powi e" using v(1) by (simp add: dval_def)
  moreover have "0 < (2::real) powi e" by simp
  ultimately have "0 \<le> real_of_int m" by (simp add: zero_le_mult_iff not_le)
  then have "0 \<le> m" by simp
  with me v that show thesis by blast
qed

lemma solar_gsr_gap:
  assumes "0 \<le> c" "c \<le> 1023"
  shows "\<bar>round_hundredths (fmul_int (fdiv_int c 1023) 1200)
          - 12 * round_hundredths (fmul_int (fdiv_int c 1023) 100)\<bar> \<le> 6"
proof -
  obtain m e where me: "fdiv_int c 1023 = (m, e)" and m: "0 \<le> m"
    and x0: "0 \<le> dval (m, e)" and x2: "dval (m, e) \<le> 2"
    using fdiv_int_range [OF assms] by blast
  define X where "X = dval (m, e)"
  obtain m1 e1 where y1: "fmul_int (m, e) 1200 = (m1, e1)" by (cases "fmul_int (m, e) 1200")
  obtain m2 e2 where y2: "fmul_int (m, e) 100 = (m2, e2)" by (cases "fmul_int (m, e) 100")
  define Y1 where "Y1 = dval (m1, e1)"
  define Y2 where "Y2 = dval (m2, e2)"
  define a where "a = round_hundredths (m1, e1)"
  define b where "b = round_hundredths (m2, e2)"
  have X: "0 \<le> X" "X \<le> 2" using x0 x2 by (simp_all add: X_def)
  have "\<bar>Y1 - 1200 * X\<bar> \<le> (1200 * X) * 2 powi (- 53)"
    using fmul_int_err [OF m, of 1200 e] by (simp add: y1 Y1_def X_def)
  moreover have "(1200 * X) * 2 powi (- 53) \<le> (1200 * X) * (1 / 1000000000)"
    using X(1) eps_small(1) by (intro mult_left_mono) simp_all
  ultimately have e1: "\<bar>Y1 - 1200 * X\<bar> \<le> 1200 * X / 1000000000" by simp
  have "\<bar>Y2 - 100 * X\<bar> \<le> (100 * X) * 2 powi (- 53)"
    using fmul_int_err [OF m, of 100 e] by (simp add: y2 Y2_def X_def)
  moreover have "(100 * X) * 2 powi (- 53) \<le> (100 * X) * (1 / 1000000000)"
    using X(1) eps_small(1) by (intro mult_left_mono) simp_all
  ultimately have e2: "\<bar>Y2 - 100 * X\<bar> \<le> 100 * X / 1000000000" by simp
  have ra: "\<bar>real_of_int a - 100 * Y1\<bar> \<le> 1 / 2"
    using round_hundredths_err [of m1 e1] by (simp add: a_def Y1_def)
  have rb: "\<bar>real_of_int b - 100 * Y2\<bar> \<le> 1 / 2"
    using round_hundredths_err [of m2 e2] by (simp add: b_def Y2_def)
  have "\<bar>real_of_int a - 12 * real_of_int b\<bar> < 7"
    using e1 e2 ra rb X by linarith
  then have "\<bar>real_of_int (a - 12 * b)\<bar> < real_of_int 7" by simp
  then have "\<bar>a - 12 * b\<bar> < 7" by (simp only: of_int_abs [symmetric] of_int_less_iff)
  then show ?thesis by (simp add: me y1 y2 a_def b_def)
qed

subsection \<open>Both quantities come from the solar channel\<close>

lemma bind_err_Inr: "(bind_err m f = Inr y) = (\<exists>x. m = Inr x \<and> f x = Inr y)"
  by (cases m) auto

lemma scaled_Inr:
  "(scaled c k = Inr v) = (\<exists>n. c = Some n \<and> v = py_round2 (fmul_int (fdiv_int n 1023) k))"
  by (cases c) auto

lemma calibrate_range: "calibrate v = Some c \<Longrightarrow> 0 \<le> c \<and> c \<le> 1023"
  by (auto simp: calibrate_def Let_def split: sum.splits if_splits)

lemma convert_values_solar:
  assumes "convert_values data = Inr r"
  shows "\<exists>v c. data ''solar'' = Some v \<and> calibrate v = Some c
           \<and> Solar_Radiation r = py_round2 (fmul_int (fdiv_int c 1023) 1200)
           \<and> GSR r = py_round2 (fmul_int (fdiv_int c 1023) 100)"
  using assms
  by (auto simp: convert_values_def bind_err_Inr scaled_Inr getitem_def Let_def
      split: option.splits)

text \<open>
  Claim C4, as stated, fails: for the raw solar value 850 the reading has Solar Radiation
  997.07 and GSR 83.09, and 12 times 83.09 is 997.08, as an exact product and as a float
  product.
\<close>

theorem solar_not_twelve_gsr:
  "convert_values scenario_snapshot = Inr scenario_result
   \<and> Solar_Radiation scenario_result = dec2 99707
   \<and> GSR scenario_result = dec2 8309
   \<and> \<not> double_eq_times (Solar_Radiation scenario_result) 12 (GSR scenario_result)
   \<and> Solar_Radiation scenario_result \<noteq> fmul_int (GSR scenario_result) 12
   \<and> (99707::int) \<noteq> 12 * 8309"
  by (simp add: scenario_value scenario_result_def dec2_values double_eq_times_def fl_eval)

text \<open>
  Claim C4, as amended. Whenever \<open>convert_values\<close> returns a reading, Solar Radiation
  and GSR are computed from the same calibrated value of the solar channel, with the
  scales 1200 and 100; as decimals with two places, \<open>a\<close> and \<open>b\<close> hundredths, they satisfy
  the ratio up to rounding: \<open>a\<close> differs from \<open>12 * b\<close> by at most 6 hundredths.
\<close>

theorem solar_gsr_ratio:
  "convert_values data = Inr r \<longrightarrow>
     (\<exists>v c a b. data ''solar'' = Some v \<and> calibrate v = Some c
        \<and> a = round_hundredths (fmul_int (fdiv_int c 1023) 1200)
        \<and> b = round_hundredths (fmul_int (fdiv_int c 1023) 100)
        \<and> Solar_Radiation r = dec2 a \<and> GSR r = dec2 b
        \<and> \<bar>a - 12 * b\<bar> \<le> 6)"
proof
  assume "convert_values data = Inr r"
  from convert_values_solar [OF this] obtain v c where
    v: "data ''solar'' = Some v" and c: "calibrate v = Some c"
    and sr: "Solar_Radiation r = py_round2 (fmul_int (fdiv_int c 1023) 1200)"
    and gsr: "GSR r = py_round2 (fmul_int (fdiv_int c 1023) 100)"
    by blast
  from calibrate_range [OF c] have "0 \<le> c" "c \<le> 1023" by simp_all
  from solar_gsr_gap [OF this] v c sr gsr
  show "\<exists>v c a b. data ''solar'' = Some v \<and> calibrate v = Some c
        \<and> a = round_hundredths (fmul_int (fdiv_int c 1023) 1200)
        \<and> b = round_hundredths (fmul_int (fdiv_int c 1023) 100)
        \<and> Solar_Radiation r = dec2 a \<and> GSR r = dec2 b
        \<and> \<bar>a - 12 * b\<bar> \<le> 6"
    by (auto simp: py_round2_def)
qed

theorem solar_gsr_ratio_witness:
  "convert_values scenario_snapshot = Inr scenario_result
   \<and> (\<exists>a b. Solar_Radiation scenario_result = dec2 a \<and> GSR scenario_result = dec2 b
          \<and> a = round_hundredths (fmul_int (fdiv_int 850 1023) 1200)
          \<and> b = round_hundredths (fmul_int (fdiv_int 850 1023) 100)
          \<and> \<bar>a - 12 * b\<bar> \<le> 6)"
proof -
  have res: "convert_values scenario_snapshot = Inr scenario_result"
    by (simp add: scenario_value scenario_result_def)
  have solar: "scenario_snapshot ''solar'' = Some (PInt 850)"
    by (simp add: scenario_snapshot_def)
  from solar_gsr_ratio [of scenario_snapshot scenario_result] res solar
  show ?thesis
    by (auto simp: scenario_calibrated)
qed

end
